theory Spec2Isabelle
  imports Main
begin

section \<open>Python strings\<close>

text \<open>
  A Python \<open>str\<close> is modelled as a \<open>string\<close>, one \<open>char\<close> per code point; the model
  therefore covers the texts whose code points are below 256. \<open>len\<close> is \<open>length\<close>, a
  string is truthy when it is not empty.
\<close>

definition newline :: char where
  "newline = CHR 0x0A"

text \<open>\<open>str.isspace\<close> on one character (the code points below 256 that Python strips).\<close>

definition isspace :: "char \<Rightarrow> bool" where
  "isspace c = (let n = (of_char c :: nat) in
     (9 \<le> n \<and> n \<le> 13) \<or> (28 \<le> n \<and> n \<le> 32) \<or> n = 133 \<or> n = 160)"

text \<open>\<open>s.strip()\<close>: leading and trailing whitespace removed.\<close>

definition strip :: "string \<Rightarrow> string" where
  "strip s = rev (dropWhile isspace (rev (dropWhile isspace s)))"

text \<open>\<open>s.split(sep)\<close> with a one-character separator: every occurrence splits, so the
  result is never empty and \<open>''''.split(' ')\<close> is \<open>['''']\<close>.\<close>

fun split :: "char \<Rightarrow> string \<Rightarrow> string list" where
  "split sep [] = [[]]"
| "split sep (c # cs) =
     (if c = sep then [] # split sep cs
      else (case split sep cs of [] \<Rightarrow> [[c]] | word # words \<Rightarrow> (c # word) # words))"

text \<open>\<open>sep.join(xs)\<close>.\<close>

fun join :: "string \<Rightarrow> string list \<Rightarrow> string" where
  "join sep [] = []"
| "join sep [x] = x"
| "join sep (x # y # ys) = x @ sep @ join sep (y # ys)"

text \<open>\<open>a or b\<close> on an optional string: \<open>None\<close> and the empty string are falsy.\<close>

fun or_else :: "string option \<Rightarrow> string \<Rightarrow> string" where
  "or_else None d = d"
| "or_else (Some s) d = (if s = [] then d else s)"

section \<open>JSON serialisation\<close>

text \<open>
  The values handed to \<open>json.dumps\<close> by the program are dictionaries of strings and
  of dictionaries; a dictionary keeps its insertion order.
\<close>

datatype json = JString string | JObject "(string \<times> json) list"

definition hex4 :: "nat \<Rightarrow> string" where
  "hex4 n = map (\<lambda>k. ''0123456789abcdef'' ! ((n div k) mod 16)) [4096, 256, 16, 1]"

text \<open>One character inside a JSON string, as \<open>json.dumps\<close> writes it with its default
  \<open>ensure_ascii=True\<close>: the printable ASCII characters stand for themselves, the quote
  and the backslash are escaped, the rest is a short escape or \<open>\uXXXX\<close>.\<close>

definition json_escape :: "char \<Rightarrow> string" where
  "json_escape c =
     (if c = CHR 0x22 then [CHR 0x5C, CHR 0x22]
      else if c = CHR 0x5C then [CHR 0x5C, CHR 0x5C]
      else if c = CHR 0x0A then [CHR 0x5C, CHR ''n'']
      else if c = CHR 0x0D then [CHR 0x5C, CHR ''r'']
      else if c = CHR 0x09 then [CHR 0x5C, CHR ''t'']
      else if c = CHR 0x0C then [CHR 0x5C, CHR ''f'']
      else if c = CHR 0x08 then [CHR 0x5C, CHR ''b'']
      else if 32 \<le> (of_char c :: nat) \<and> (of_char c :: nat) \<le> 126 then [c]
      else [CHR 0x5C, CHR ''u''] @ hex4 (of_char c))"

definition dumps_str :: "string \<Rightarrow> string" where
  "dumps_str s = [CHR 0x22] @ concat (map json_escape s) @ [CHR 0x22]"

text \<open>\<open>json.dumps\<close> with the default separators \<open>', '\<close> and \<open>': '\<close>.\<close>

fun dumps :: "json \<Rightarrow> string"
  and dumps_items :: "(string \<times> json) list \<Rightarrow> string list" where
  "dumps (JString s) = dumps_str s"
| "dumps (JObject kvs) = ''{'' @ join '', '' (dumps_items kvs) @ ''}''"
| "dumps_items [] = []"
| "dumps_items ((k, v) # kvs) = (dumps_str k @ '': '' @ dumps v) # dumps_items kvs"

fun json_keys :: "json \<Rightarrow> string list" where
  "json_keys (JString s) = []"
| "json_keys (JObject kvs) = map fst kvs"

fun json_get :: "json \<Rightarrow> string \<Rightarrow> json option" where
  "json_get (JString s) k = None"
| "json_get (JObject kvs) k = map_of kvs k"

section \<open>Stream events\<close>

text \<open>
  The four dictionaries the generators serialise: a status text; a chunk and the thread
  id; a final assistant message and the thread id; the thread id alone.
\<close>

datatype event =
    Status string
  | Chunk string string
  | Result string string
  | Done string

fun event_json :: "event \<Rightarrow> json" where
  "event_json (Status status) =
     JObject [(''type'', JString ''status''), (''status'', JString status)]"
| "event_json (Chunk chunk thread_id) =
     JObject [(''type'', JString ''chunk''), (''chunk'', JString chunk),
              (''thread_id'', JString thread_id)]"
| "event_json (Result content thread_id) =
     JObject [(''type'', JString ''result''),
              (''message'', JObject [(''role'', JString ''assistant''),
                                     (''content'', JString content)]),
              (''thread_id'', JString thread_id)]"
| "event_json (Done thread_id) =
     JObject [(''type'', JString ''done''), (''thread_id'', JString thread_id)]"

text \<open>What a generator yields for an event: \<open>json.dumps({...}) + "\n"\<close>.\<close>

definition wire :: "event \<Rightarrow> string" where
  "wire e = dumps (event_json e) @ [newline]"

fun is_status :: "event \<Rightarrow> bool" where
  "is_status (Status s) = True"
| "is_status e = False"

fun is_terminal :: "event \<Rightarrow> bool" where
  "is_terminal (Result c t) = True"
| "is_terminal (Done t) = True"
| "is_terminal e = False"

fun chunk_payloads :: "event list \<Rightarrow> string list" where
  "chunk_payloads [] = []"
| "chunk_payloads (Chunk chunk t # es) = chunk # chunk_payloads es"
| "chunk_payloads (e # es) = chunk_payloads es"

section \<open>Requests, replies and LangChain messages\<close>

record Message =
  role :: string
  content :: string

text \<open>The fields of a request carry a prefix, so that the names of the source's local
  variables (\<open>thread_id\<close>, \<open>model\<close>, \<open>messages\<close>) stay free for them.\<close>

record ChatRequest =
  chat_messages :: "Message list"
  chat_model :: string
  chat_thread_id :: "string option"
  chat_file_url :: "string option"
  chat_use_agent :: bool
  chat_deep_research :: bool
  chat_stream :: bool

record ReactAgentRequest =
  react_messages :: "Message list"
  react_model :: string
  react_thread_id :: "string option"
  react_file_url :: "string option"
  react_max_search_results :: int

datatype ChatResponse = ChatResponse (reply_message: Message) (reply_thread_id: string)

datatype lc_message = HumanMessage string | AIMessage string

text \<open>An exception, with the text \<open>str(e)\<close> gives; \<open>anthropic.InternalServerError\<close> is the
  one class a handler names.\<close>

datatype exn = AnthropicInternalServerError string | Exception string

fun str :: "exn \<Rightarrow> string" where
  "str (AnthropicInternalServerError s) = s"
| "str (Exception s) = s"

text \<open>What an endpoint hands to the framework: a value, answered with status 200, or an
  \<open>HTTPException\<close> with its status code (only \<open>handle_file_upload\<close> raises one).\<close>

datatype 'a http = OK 'a | HTTPException nat string

datatype chat_result = Reply ChatResponse | StreamingResponse "string list"

section \<open>Conversation normaliser (\<open>chat\<close>, lines 212-225)\<close>

fun to_langchain :: "Message list \<Rightarrow> lc_message list" where
  "to_langchain [] = []"
| "to_langchain (msg # msgs) =
     (if role msg = ''user'' then
        HumanMessage (if content msg \<noteq> [] then strip (content msg) else ''Hello'')
          # to_langchain msgs
      else if role msg = ''assistant'' then
        AIMessage (if content msg \<noteq> [] then strip (content msg) else ''I'm an AI assistant.'')
          # to_langchain msgs
      else to_langchain msgs)"

definition normalize :: "Message list \<Rightarrow> lc_message list" where
  "normalize msgs =
     (let langchain_messages = to_langchain msgs
      in if langchain_messages = [] then [HumanMessage ''Hello''] else langchain_messages)"

fun lc_content :: "lc_message \<Rightarrow> string" where
  "lc_content (HumanMessage c) = c"
| "lc_content (AIMessage c) = c"

text \<open>The react endpoints convert without any substitution (lines 529-534, 660-665).\<close>

fun to_langchain_plain :: "Message list \<Rightarrow> lc_message list" where
  "to_langchain_plain [] = []"
| "to_langchain_plain (msg # msgs) =
     (if role msg = ''user'' then HumanMessage (content msg) # to_langchain_plain msgs
      else if role msg = ''assistant'' then AIMessage (content msg) # to_langchain_plain msgs
      else to_langchain_plain msgs)"

section \<open>Synthetic chunking (lines 428-446 and 757-785)\<close>

text \<open>\<open>any(char in word for char in ['.', '!', '?', '\n'])\<close>.\<close>

definition has_terminal :: "string \<Rightarrow> bool" where
  "has_terminal word = list_ex (\<lambda>char. char \<in> set word) [CHR ''.'', CHR ''!'', CHR ''?'', newline]"

text \<open>The \<open>for word in words\<close> loop that both streaming agent paths share. It returns
  the chunk events yielded, in order, and the buffer left when the words run out.\<close>

fun word_loop :: "string list \<Rightarrow> string \<Rightarrow> nat \<Rightarrow> string \<Rightarrow> event list \<times> string" where
  "word_loop [] buffer word_count thread_id = ([], buffer)"
| "word_loop (word # words) buffer word_count thread_id =
     (let buffer = buffer @ word @ '' '';
          word_count = word_count + 1
      in if word_count \<ge> 3 \<or> has_terminal word then
           (case word_loop words [] 0 thread_id of
              (events, rest) \<Rightarrow> (Chunk buffer thread_id # events, rest))
         else word_loop words buffer word_count thread_id)"

text \<open>\<open>stream_chat_response\<close>: the loop, and nothing for the buffer that remains.\<close>

definition chat_chunks :: "string \<Rightarrow> string \<Rightarrow> event list" where
  "chat_chunks response_content thread_id =
     fst (word_loop (split CHR '' '' response_content) [] 0 thread_id)"

text \<open>\<open>react_agent_search_streaming\<close>: the loop, then the remaining buffer when it is not
  empty.\<close>

definition react_chunks :: "string \<Rightarrow> string \<Rightarrow> event list" where
  "react_chunks response_content thread_id =
     (case word_loop (split CHR '' '' response_content) [] 0 thread_id of
        (events, buffer) \<Rightarrow> events @ (if buffer \<noteq> [] then [Chunk buffer thread_id] else []))"

section \<open>Collaborators\<close>

text \<open>
  The model clients, the two agent graphs and \<open>uuid.uuid4\<close> are outside the program. A
  call of one of them is modelled by its outcome: the value returned, or the exception
  raised.
\<close>

text \<open>An item of a provider stream: an object, with its \<open>content\<close> attribute and the
  \<open>content\<close> of its \<open>delta\<close> attribute where it has them (\<open>None\<close> where it has not, or
  where the value is \<open>None\<close>), or a dictionary, with its \<open>"content"\<close> entry.\<close>

datatype stream_chunk =
    ChunkObject "string option" "string option"
  | ChunkDict "string option"

record model_client =
  invoke :: "lc_message list \<Rightarrow> exn + string"
  astream :: "(lc_message list \<Rightarrow> stream_chunk list \<times> exn option) option"

text \<open>
  \<open>invoke\<close> gives \<open>model.invoke(messages).content\<close>. \<open>astream\<close> is \<open>None\<close> for a client
  without a callable \<open>astream\<close> attribute; otherwise it gives the items the stream yields
  and the exception that ends it, if one does.

  \<open>MODEL_CLIENTS\<close> is a dictionary of factories in insertion order; calling a factory
  returns a client or raises.
\<close>

type_synonym registry = "(string \<times> (exn + model_client)) list"

text \<open>The last message of an \<open>agt_graph\<close> result: an object with a \<open>content\<close> attribute, a
  dictionary with or without a \<open>"content"\<close> entry, or something else. The result has a
  \<open>"messages"\<close> entry or not.\<close>

datatype agt_message = MessageObject string | MessageDict "string option" | MessageOther

type_synonym agt_result = "agt_message list option"

record VaaniState =
  state_messages :: "lc_message list"
  state_file_url :: "string option"
  indexed :: bool
  deep_research_requested :: bool
  agent_name :: "string option"
  model_name :: string
  reflect_iterations :: nat
  reflection_data :: "unit option"

text \<open>A search hit or a collected source: a dictionary read with \<open>.get('url')\<close> and
  \<open>.get('title')\<close>.\<close>

datatype source = Source (get_url: "string option") (get_title: "string option")

text \<open>The \<open>"output"\<close> of a tool call: absent or falsy, a list, or another truthy value.\<close>

datatype tool_output = NoOutput | ListOutput "source list" | OtherOutput

record tool_call =
  call_name :: "string option"
  call_output :: tool_output

text \<open>A message of a \<open>react_graph\<close> result; \<open>tool_calls\<close> is \<open>None\<close> for a message without
  that attribute.\<close>

record react_message =
  message_content :: string
  tool_calls :: "tool_call list option"

type_synonym react_result = "react_message list option"

record Configuration =
  config_model :: string
  config_max_search_results :: int
  config_fallback_model :: "string option"

text \<open>
  \<open>polls\<close> is the number of times the progress loop of \<open>stream_chat_response\<close> finds the
  agent task unfinished. The status callback handed to \<open>react_graph\<close> yields into a
  generator of its own that nothing reads, so it is not part of the call's model.
\<close>

record world =
  MODEL_CLIENTS :: registry
  agt_graph_invoke :: "VaaniState \<Rightarrow> string \<Rightarrow> exn + agt_result"
  react_graph_ainvoke :: "lc_message list \<Rightarrow> string \<Rightarrow> Configuration \<Rightarrow> exn + react_result"
  uuid4 :: string
  polls :: nat

section \<open>Model registry\<close>

text \<open>The lookup written out in \<open>chat\<close> (lines 300-312) and again in
  \<open>stream_chat_response\<close> (lines 354-368): the name itself when registered, the first
  registered name otherwise, nothing when the registry is empty.\<close>

definition resolve_model :: "registry \<Rightarrow> string \<Rightarrow> string option" where
  "resolve_model clients model =
     (if model \<notin> set (map fst clients) then
        (case clients of [] \<Rightarrow> None | (first, factory) # rest \<Rightarrow> Some first)
      else Some model)"

text \<open>\<open>MODEL_CLIENTS[model]()\<close>: a \<open>KeyError\<close> for a missing name, else the factory's
  outcome.\<close>

definition new_client :: "registry \<Rightarrow> string \<Rightarrow> exn + model_client" where
  "new_client clients model =
     (case map_of clients model of
        None \<Rightarrow> Inl (Exception ([CHR 0x27] @ model @ [CHR 0x27]))
      | Some factory \<Rightarrow> factory)"

definition no_api_keys :: string where
  "no_api_keys = ''No API keys are configured. Please add API keys to your .env file.''"

section \<open>Agent replies\<close>

text \<open>Lines 276-287 and 417-426.\<close>

definition agent_response_content :: "agt_result \<Rightarrow> string" where
  "agent_response_content result =
     (case result of
        None \<Rightarrow> ''I couldn't process your request with the AI agent. Please try again.''
      | Some msgs \<Rightarrow>
          if msgs = [] then
            ''I couldn't process your request with the AI agent. Please try again.''
          else
            (case last msgs of
               MessageObject c \<Rightarrow> c
             | MessageDict (Some c) \<Rightarrow> c
             | MessageDict None \<Rightarrow> ''I couldn't process your request properly.''
             | MessageOther \<Rightarrow> ''I couldn't process your request properly.''))"

definition make_state ::
  "lc_message list \<Rightarrow> string option \<Rightarrow> bool \<Rightarrow> string \<Rightarrow> VaaniState" where
  "make_state messages file_url deep_research model =
     \<lparr>state_messages = messages, state_file_url = file_url, indexed = False,
      deep_research_requested = deep_research,
      agent_name = (if deep_research then Some ''web_search_agent'' else None),
      model_name = model, reflect_iterations = 0, reflection_data = None\<rparr>"

section \<open>Source citations (lines 598-615, 735-752, 819-836)\<close>

fun truthy :: "string option \<Rightarrow> bool" where
  "truthy None = False"
| "truthy (Some s) = (s \<noteq> [])"

fun collect_items :: "source list \<Rightarrow> source list \<Rightarrow> source list" where
  "collect_items [] sources = sources"
| "collect_items (item # items) sources =
     (if truthy (get_url item) \<and> truthy (get_title item) then
        collect_items items (sources @ [Source (get_url item) (get_title item)])
      else collect_items items sources)"

fun output_truthy :: "tool_output \<Rightarrow> bool" where
  "output_truthy NoOutput = False"
| "output_truthy (ListOutput items) = (items \<noteq> [])"
| "output_truthy OtherOutput = True"

fun collect_calls :: "tool_call list \<Rightarrow> source list \<Rightarrow> source list" where
  "collect_calls [] sources = sources"
| "collect_calls (call # calls) sources =
     (if call_name call = Some ''search'' \<and> output_truthy (call_output call) then
        (case call_output call of
           ListOutput tool_output \<Rightarrow> collect_calls calls (collect_items tool_output sources)
         | NoOutput \<Rightarrow> collect_calls calls sources
         | OtherOutput \<Rightarrow> collect_calls calls sources)
      else collect_calls calls sources)"

fun collect_messages :: "react_message list \<Rightarrow> source list \<Rightarrow> source list" where
  "collect_messages [] sources = sources"
| "collect_messages (msg # msgs) sources =
     collect_messages msgs
       (collect_calls (case tool_calls msg of None \<Rightarrow> [] | Some calls \<Rightarrow> calls) sources)"

fun format_loop :: "source list \<Rightarrow> string list \<Rightarrow> string list" where
  "format_loop [] formatted_sources = formatted_sources"
| "format_loop (source # sources) formatted_sources =
     (let title = (case get_title source of None \<Rightarrow> ''Source'' | Some t \<Rightarrow> t);
          url = (case get_url source of None \<Rightarrow> [] | Some u \<Rightarrow> u)
      in if url \<noteq> [] then
           (let title = strip title;
                title = (if length title > 60 then take 57 title @ ''...'' else title)
            in format_loop sources (formatted_sources @ [''['' @ title @ '']('' @ url @ '')'']))
         else format_loop sources formatted_sources)"

definition format_source_urls :: "source list \<Rightarrow> string" where
  "format_source_urls sources =
     (if sources = [] then []
      else
        (let formatted_sources = format_loop sources []
         in if formatted_sources \<noteq> [] then
              [newline, newline] @ ''**Sources:**'' @ [newline] @ join [newline] formatted_sources
            else []))"

definition has_tool_calls :: "react_message \<Rightarrow> bool" where
  "has_tool_calls msg = (case tool_calls msg of None \<Rightarrow> False | Some calls \<Rightarrow> calls \<noteq> [])"

text \<open>The reply text of the react endpoints (lines 593-618 and 730-755).\<close>

definition react_response_content :: "react_result \<Rightarrow> string" where
  "react_response_content result =
     (case result of
        None \<Rightarrow> ''I couldn't find any useful information. Please try a different query.''
      | Some msgs \<Rightarrow>
          if msgs = [] then
            ''I couldn't find any useful information. Please try a different query.''
          else
            (let response_content = message_content (last msgs);
                 search_tool_outputs = filter has_tool_calls msgs
             in if search_tool_outputs \<noteq> [] then
                  (let sources = collect_messages search_tool_outputs []
                   in if sources \<noteq> [] then response_content @ format_source_urls sources
                      else response_content)
                else response_content))"

section \<open>Streaming chat (\<open>stream_chat_response\<close>, lines 347-513)\<close>

definition progress_steps :: "string list" where
  "progress_steps = [''Thinking'', ''Processing'', ''Analyzing'', ''Formulating response'']"

text \<open>The \<open>while not agent_task.done()\<close> loop, for the given number of rounds.\<close>

fun progress_loop :: "nat \<Rightarrow> nat \<Rightarrow> event list" where
  "progress_loop 0 step_index = []"
| "progress_loop (Suc n) step_index =
     Status (progress_steps ! step_index @ ''...'')
       # progress_loop n ((step_index + 1) mod length progress_steps)"

text \<open>The text of a stream item (lines 474-480).\<close>

fun chunk_content :: "stream_chunk \<Rightarrow> string" where
  "chunk_content (ChunkObject c d) = or_else c (or_else d [])"
| "chunk_content (ChunkDict entry) = (case entry of None \<Rightarrow> [] | Some c \<Rightarrow> c)"

fun stream_loop :: "stream_chunk list \<Rightarrow> string \<Rightarrow> event list" where
  "stream_loop [] thread_id = []"
| "stream_loop (chunk # chunks) thread_id =
     (if chunk_content chunk \<noteq> [] then
        Chunk (chunk_content chunk) thread_id # stream_loop chunks thread_id
      else stream_loop chunks thread_id)"

text \<open>
  The generator, as the list of events it yields (each goes out as \<open>wire\<close> of it) and the
  list of calls of \<open>agt_graph.invoke\<close> it makes, with the state and the thread id of each.
\<close>

definition stream_chat_response ::
  "world \<Rightarrow> lc_message list \<Rightarrow> string \<Rightarrow> string \<Rightarrow> bool \<Rightarrow> bool \<Rightarrow> string option
     \<Rightarrow> event list \<times> (VaaniState \<times> string) list" where
  "stream_chat_response w messages model thread_id use_agent deep_research file_url =
     (case resolve_model (MODEL_CLIENTS w) model of
        None \<Rightarrow> ([Status ''Processing...'', Result no_api_keys thread_id], [])
      | Some model \<Rightarrow>
          (case new_client (MODEL_CLIENTS w) model of
             Inl e \<Rightarrow>
               ([Status ''Processing...'',
                 Result (''I encountered an error: '' @ str e) thread_id], [])
           | Inr model_client \<Rightarrow>
               if use_agent then
                 (let input_state = make_state messages file_url deep_research model
                  in ([Status ''Processing...'', Status ''Running agent...'']
                        @ progress_loop (polls w) 0
                        @ (case agt_graph_invoke w input_state thread_id of
                             Inl invoke_error \<Rightarrow>
                               [Result (''I encountered an error with the AI agent: ''
                                          @ str invoke_error) thread_id]
                           | Inr result \<Rightarrow>
                               (let response_content = agent_response_content result
                                in chat_chunks response_content thread_id
                                     @ [Result response_content thread_id])),
                      [(input_state, thread_id)]))
               else
                 (case astream model_client of
                    None \<Rightarrow> ([Status ''Processing...''], [])
                  | Some stream \<Rightarrow>
                      (case stream messages of
                         (chunks, None) \<Rightarrow>
                           ([Status ''Processing...''] @ stream_loop chunks thread_id
                              @ [Done thread_id], [])
                       | (chunks, Some model_error) \<Rightarrow>
                           ([Status ''Processing...''] @ stream_loop chunks thread_id
                              @ [Result (''I encountered an error with the '' @ model
                                           @ '' model: '' @ str model_error) thread_id],
                            [])))))"

section \<open>Chat (\<open>chat\<close>, lines 201-344)\<close>

definition assistant :: "string \<Rightarrow> Message" where
  "assistant text = \<lparr>role = ''assistant'', content = text\<rparr>"

definition chat :: "world \<Rightarrow> ChatRequest \<Rightarrow> chat_result http" where
  "chat w request =
     (let thread_id = or_else (chat_thread_id request) (uuid4 w);
          langchain_messages = normalize (chat_messages request);
          backend_model = chat_model request
      in if chat_stream request then
           OK (StreamingResponse (map wire (fst
             (stream_chat_response w langchain_messages backend_model thread_id
                (chat_use_agent request) (chat_deep_research request)
                (chat_file_url request)))))
         else if chat_use_agent request then
           (case agt_graph_invoke w
                   (make_state langchain_messages (chat_file_url request)
                      (chat_deep_research request) backend_model) thread_id of
              Inl invoke_error \<Rightarrow>
                OK (Reply (ChatResponse
                  (assistant (''I encountered an error with the AI agent: ''
                                @ str invoke_error)) thread_id))
            | Inr result \<Rightarrow>
                OK (Reply (ChatResponse (assistant (agent_response_content result)) thread_id)))
         else
           (case resolve_model (MODEL_CLIENTS w) backend_model of
              None \<Rightarrow> OK (Reply (ChatResponse (assistant no_api_keys) thread_id))
            | Some backend_model \<Rightarrow>
                (case new_client (MODEL_CLIENTS w) backend_model of
                   Inl model_error \<Rightarrow>
                     OK (Reply (ChatResponse
                       (assistant (''I encountered an error with the '' @ backend_model
                                     @ '' model: '' @ str model_error)) thread_id))
                 | Inr model_client \<Rightarrow>
                     (case invoke model_client langchain_messages of
                        Inl model_error \<Rightarrow>
                          OK (Reply (ChatResponse
                            (assistant (''I encountered an error with the '' @ backend_model
                                          @ '' model: '' @ str model_error)) thread_id))
                      | Inr response_content \<Rightarrow>
                          OK (Reply (ChatResponse (assistant response_content) thread_id))))))"

section \<open>React agent search (lines 521-647 and 649-807)\<close>

definition model_mapping :: "(string \<times> string) list" where
  "model_mapping =
     [(''gemini-1.5-flash'', ''google/gemini-1.5-flash''),
      (''gpt-4o-mini'', ''openai/gpt-4o-mini''),
      (''gpt-4o'', ''openai/gpt-4o''),
      (''claude-3-haiku-20240307'', ''anthropic/claude-3-haiku-20240307''),
      (''llama-3.3-70b-versatile'', ''groq/llama-3.3-70b-versatile''),
      (''mixtral-8x7b-32768'', ''groq/mixtral-8x7b-32768'')]"

text \<open>Lines 569-579: the first of three preferred models that is registered and is not the
  agent's own. A configuration whose \<open>fallback_model\<close> is never set has \<open>None\<close> here.\<close>

definition fallback_models :: "registry \<Rightarrow> string \<Rightarrow> string option list" where
  "fallback_models clients agent_model =
     map (map_of model_mapping)
       (filter (\<lambda>model_id. model_id \<in> set (map fst clients)
                  \<and> map_of model_mapping model_id \<noteq> Some agent_model)
          [''gpt-4o-mini'', ''gemini-1.5-flash'', ''llama-3.3-70b-versatile''])"

definition busy_message :: string where
  "busy_message = ''Sorry, the AI service is currently experiencing high load. Please try again in a few moments or switch to a different model.''"

definition react_agent_search :: "world \<Rightarrow> ReactAgentRequest \<Rightarrow> ChatResponse http" where
  "react_agent_search w request =
     (let thread_id = or_else (react_thread_id request) (uuid4 w);
          langchain_messages = to_langchain_plain (react_messages request);
          agent_model = or_else (map_of model_mapping (react_model request))
                          (''default/'' @ react_model request);
          fallbacks = fallback_models (MODEL_CLIENTS w) agent_model;
          config = \<lparr>config_model = agent_model,
                    config_max_search_results = react_max_search_results request,
                    config_fallback_model =
                      (case fallbacks of [] \<Rightarrow> None | first # rest \<Rightarrow> first)\<rparr>
      in case react_graph_ainvoke w langchain_messages thread_id config of
           Inl (AnthropicInternalServerError anthropic_error) \<Rightarrow>
             OK (ChatResponse (assistant busy_message) thread_id)
         | Inl (Exception agent_error) \<Rightarrow>
             OK (ChatResponse
               (assistant (''I encountered an error with the research agent: ''
                             @ agent_error)) thread_id)
         | Inr result \<Rightarrow>
             OK (ChatResponse (assistant (react_response_content result)) thread_id))"

text \<open>The generator of \<open>react_agent_search_streaming\<close>, as the list of events it yields.\<close>

definition event_generator :: "world \<Rightarrow> ReactAgentRequest \<Rightarrow> event list" where
  "event_generator w request =
     (let langchain_messages = to_langchain_plain (react_messages request);
          thread_id = or_else (react_thread_id request) (uuid4 w);
          agent_model = (case map_of model_mapping (react_model request) of
                           None \<Rightarrow> ''default/'' @ react_model request
                         | Some mapped \<Rightarrow> mapped);
          config = \<lparr>config_model = agent_model,
                    config_max_search_results = react_max_search_results request,
                    config_fallback_model = None\<rparr>
      in [Status ''Starting research...'', Status ''Researching...'']
           @ (case react_graph_ainvoke w langchain_messages thread_id config of
                Inl e \<Rightarrow>
                  [Result (''I encountered an error: '' @ str e)
                     (or_else (Some thread_id) (uuid4 w))]
              | Inr result \<Rightarrow>
                  (let response_content = react_response_content result
                   in react_chunks response_content thread_id
                        @ [Result response_content thread_id])))"

definition react_agent_search_streaming ::
  "world \<Rightarrow> ReactAgentRequest \<Rightarrow> string list http" where
  "react_agent_search_streaming w request = OK (map wire (event_generator w request))"

section \<open>Reference notions and example inputs\<close>

text \<open>A stream is well terminated when its last event is terminal and no other is.\<close>

definition well_terminated :: "event list \<Rightarrow> bool" where
  "well_terminated events =
     (events \<noteq> [] \<and> is_terminal (last events) \<and> \<not> list_ex is_terminal (butlast events))"

text \<open>The entries the specification asks for, written as a comprehension: for each
  message, for each of its tool calls named \<open>search\<close> with a list output, the items that
  have a url and a title, in their order.\<close>

definition call_entries :: "tool_call \<Rightarrow> source list" where
  "call_entries call =
     (if call_name call = Some ''search'' then
        (case call_output call of
           ListOutput items \<Rightarrow> filter (\<lambda>item. truthy (get_url item) \<and> truthy (get_title item)) items
         | NoOutput \<Rightarrow> []
         | OtherOutput \<Rightarrow> [])
      else [])"

definition search_entries :: "react_message list \<Rightarrow> source list" where
  "search_entries msgs =
     concat (map (\<lambda>msg. concat (map call_entries
                    (case tool_calls msg of None \<Rightarrow> [] | Some calls \<Rightarrow> calls))) msgs)"

text \<open>A title as the Sources section shows it: stripped, and cut to 57 characters and an
  ellipsis when it is longer than 60.\<close>

definition short_title :: "string \<Rightarrow> string" where
  "short_title title =
     (if length (strip title) > 60 then take 57 (strip title) @ ''...'' else strip title)"

definition source_link :: "source \<Rightarrow> string" where
  "source_link source =
     ''['' @ short_title (case get_title source of None \<Rightarrow> [] | Some t \<Rightarrow> t) @ '']''
       @ ''('' @ (case get_url source of None \<Rightarrow> [] | Some u \<Rightarrow> u) @ '')''"

definition sources_section :: "source list \<Rightarrow> string" where
  "sources_section entries =
     [newline, newline] @ ''**Sources:**'' @ [newline] @ join [newline] (map source_link entries)"

text \<open>Example collaborators: a client that answers with a fixed text, a client without
  \<open>astream\<close>, and a world whose agents have a fixed outcome.\<close>

definition plain_client :: "string \<Rightarrow> model_client" where
  "plain_client reply =
     \<lparr>invoke = (\<lambda>messages. Inr reply),
      astream = Some (\<lambda>messages. ([ChunkObject (Some reply) None], None))\<rparr>"


definition example_world ::
  "registry \<Rightarrow> exn + agt_result \<Rightarrow> exn + react_result \<Rightarrow> world" where
  "example_world clients agt_outcome react_outcome =
     \<lparr>MODEL_CLIENTS = clients,
      agt_graph_invoke = (\<lambda>input_state thread_id. agt_outcome),
      react_graph_ainvoke = (\<lambda>messages thread_id config. react_outcome),
      uuid4 = ''0b1f6a52-uuid'',
      polls = 1\<rparr>"

definition hi_request :: ChatRequest where
  "hi_request =
     \<lparr>chat_messages = [\<lparr>role = ''user'', content = ''Hi''\<rparr>], chat_model = ''gpt-4o-mini'',
      chat_thread_id = Some ''t1'', chat_file_url = None, chat_use_agent = False,
      chat_deep_research = False, chat_stream = False\<rparr>"

definition search_request :: ReactAgentRequest where
  "search_request =
     \<lparr>react_messages = [\<lparr>role = ''user'', content = ''Hi''\<rparr>], react_model = ''gpt-4o-mini'',
      react_thread_id = Some ''t1'', react_file_url = None, react_max_search_results = 3\<rparr>"

text \<open>A world whose chat agent answers with the model name it was given.\<close>

definition echo_world :: "registry \<Rightarrow> world" where
  "echo_world clients =
     \<lparr>MODEL_CLIENTS = clients,
      agt_graph_invoke =
        (\<lambda>input_state thread_id. Inr (Some [MessageObject (model_name input_state)])),
      react_graph_ainvoke = (\<lambda>messages thread_id config. Inr None),
      uuid4 = ''0b1f6a52-uuid'',
      polls = 1\<rparr>"

text \<open>A react result with two search tool calls, one hit each, and the final answer.\<close>

definition two_search_results :: "react_message list" where
  "two_search_results =
     [\<lparr>message_content = [],
       tool_calls = Some
         [\<lparr>call_name = Some ''search'',
           call_output = ListOutput [Source (Some ''https://a.example'') (Some ''Alpha'')]\<rparr>,
          \<lparr>call_name = Some ''search'',
           call_output = ListOutput [Source (Some ''https://b.example'') (Some '' Beta '')]\<rparr>]\<rparr>,
      \<lparr>message_content = ''Answer'', tool_calls = None\<rparr>]"

section \<open>Properties of the string functions\<close>

lemma split_not_empty: "split sep s \<noteq> []"
  by (induction s) (auto split: list.splits)

lemma split_no_separator: "word \<in> set (split sep s) \<Longrightarrow> sep \<notin> set word"
  by (induction s arbitrary: word) (auto split: list.splits if_splits)

lemma concat_split: "concat (map (\<lambda>word. word @ [sep]) (split sep s)) = s @ [sep]"
  by (induction s) (auto split: list.splits)

lemma or_else_idem: "or_else (Some (or_else x d)) d = or_else x d"
  by (cases x) auto

section \<open>Synthetic chunking\<close>

lemma chunk_payloads_append:
  "chunk_payloads (xs @ ys) = chunk_payloads xs @ chunk_payloads ys"
  by (induction xs rule: chunk_payloads.induct) auto

text \<open>The loop loses nothing: what it has yielded and what it still holds make up the
  initial buffer and every word with a space after it.\<close>

lemma word_loop_concat:
  "concat (chunk_payloads (fst (word_loop words buffer n t))) @ snd (word_loop words buffer n t)
     = buffer @ concat (map (\<lambda>word. word @ '' '') words)"
  by (induction words buffer n t rule: word_loop.induct)
     (auto simp: Let_def split: prod.splits)

lemma event_generator_chunks:
  assumes "\<And>messages t config. react_graph_ainvoke w messages t config = Inr result"
  shows "chunk_payloads (event_generator w request)
           = chunk_payloads (react_chunks (react_response_content result)
                               (or_else (react_thread_id request) (uuid4 w)))"
  by (simp add: event_generator_def Let_def assms chunk_payloads_append)

text \<open>
  C1 (as amended). In \<open>react_agent_search_streaming\<close> every word goes into the buffer with
  a space after it, the last one included, and the buffer left at the end is sent as a
  last chunk. So for every source text (no word, one word, many words, no whitespace)
  the payloads of the chunk events, concatenated in order, are the source text followed
  by exactly one space; nothing else is dropped, added or reordered. The chunk events of
  a whole stream concatenate to the reply text of the result event followed by one
  space.
\<close>

theorem chunks_concat_trailing_space:
  "concat (chunk_payloads (react_chunks text thread_id)) = text @ '' ''
   \<and> ((\<forall>messages t config. react_graph_ainvoke w messages t config = Inr result) \<longrightarrow>
        concat (chunk_payloads (event_generator w request))
          = react_response_content result @ '' '')"
proof -
  have react: "concat (chunk_payloads (react_chunks s t)) = s @ '' ''" for s t
    using word_loop_concat [of "split CHR '' '' s" "[]" 0 t]
    by (auto simp: react_chunks_def chunk_payloads_append concat_split split: prod.splits)
  show ?thesis
    using react by (auto simp: event_generator_chunks)
qed

theorem chunks_concat_trailing_space_witness:
  "concat (chunk_payloads (react_chunks ''Hello there. How are you'' ''t1''))
     = ''Hello there. How are you ''
   \<and> concat (chunk_payloads (event_generator
        (example_world [] (Inr None)
           (Inr (Some [\<lparr>message_content = ''Hello there'', tool_calls = None\<rparr>])))
        search_request))
     = ''Hello there ''"
  using chunks_concat_trailing_space [of "''Hello there. How are you''" "''t1''"
      "example_world [] (Inr None)
           (Inr (Some [\<lparr>message_content = ''Hello there'', tool_calls = None\<rparr>]))"
      "Some [\<lparr>message_content = ''Hello there'', tool_calls = None\<rparr>]" search_request]
  by (simp add: example_world_def react_response_content_def has_tool_calls_def)

text \<open>C1 as stated fails: the one-word text \<open>Hi\<close> comes back as \<open>Hi\<close> and a space.\<close>

theorem chunks_concat_counterexample:
  "react_chunks ''Hi'' ''t1'' = [Chunk ''Hi '' ''t1'']
   \<and> concat (chunk_payloads (react_chunks ''Hi'' ''t1'')) \<noteq> ''Hi''"
  by (simp add: react_chunks_def has_terminal_def newline_def)

text \<open>
  C8 (the code at the failing input). With one registered model and an agent that
  answers \<open>Hello there\<close>, \<open>stream_chat_response\<close> yields no chunk event: the loop ends
  with \<open>Hello there\<close> and a space in the buffer, and the result event follows at once.
  \<open>react_agent_search_streaming\<close> sends that buffer as a chunk.
\<close>

theorem stream_chat_drops_remainder:
  "fst (stream_chat_response
          (example_world [(''gpt-4o-mini'', Inr (plain_client ''x''))]
             (Inr (Some [MessageObject ''Hello there''])) (Inr None))
          [HumanMessage ''Hi''] ''gpt-4o-mini'' ''t1'' True False None)
     = [Status ''Processing...'', Status ''Running agent...'', Status ''Thinking...'',
        Result ''Hello there'' ''t1'']
   \<and> snd (word_loop (split CHR '' '' ''Hello there'') [] 0 ''t1'') = ''Hello there ''
   \<and> react_chunks ''Hello there'' ''t1'' = [Chunk ''Hello there '' ''t1'']"
  by (simp add: stream_chat_response_def example_world_def resolve_model_def new_client_def
      plain_client_def agent_response_content_def chat_chunks_def react_chunks_def
      has_terminal_def newline_def progress_steps_def make_state_def)

section \<open>Conversation normaliser\<close>

text \<open>
  C3 (the code at the failing input). A user message whose content is one space is not
  replaced by \<open>Hello\<close>: the content is truthy, so it is stripped, and the normalised
  message has empty content.
\<close>

theorem normalize_whitespace_only:
  "normalize [\<lparr>role = ''user'', content = '' ''\<rparr>] = [HumanMessage '''']
   \<and> length (lc_content (hd (normalize [\<lparr>role = ''user'', content = '' ''\<rparr>]))) = 0"
  by (simp add: normalize_def strip_def isspace_def)

text \<open>Apart from such contents the normaliser does what its comment says: when every
  content is empty or has a character that is not whitespace, no normalised message has
  empty content.\<close>

lemma to_langchain_not_empty:
  "list_all (\<lambda>msg. content msg = [] \<or> strip (content msg) \<noteq> []) msgs \<Longrightarrow>
   list_all (\<lambda>m. lc_content m \<noteq> []) (to_langchain msgs)"
  by (induction msgs) auto

lemma normalize_not_empty:
  "list_all (\<lambda>msg. content msg = [] \<or> strip (content msg) \<noteq> []) msgs \<Longrightarrow>
   list_all (\<lambda>m. lc_content m \<noteq> []) (normalize msgs)"
  by (simp add: normalize_def Let_def to_langchain_not_empty)

section \<open>Termination of the event streams\<close>

lemma progress_loop_not_terminal: "\<not> list_ex is_terminal (progress_loop n i)"
  by (induction n i rule: progress_loop.induct) auto

lemma stream_loop_not_terminal: "\<not> list_ex is_terminal (stream_loop chunks t)"
  by (induction chunks t rule: stream_loop.induct) auto

lemma word_loop_events_not_terminal:
  "word_loop words b n t = (events, rest) \<Longrightarrow> \<not> list_ex is_terminal events"
  by (induction words arbitrary: b n events rest)
     (auto simp: Let_def split: prod.splits if_splits)

lemma chat_chunks_not_terminal: "\<not> list_ex is_terminal (chat_chunks text t)"
  using word_loop_events_not_terminal [of "split CHR '' '' text" "[]" 0 t]
  by (cases "word_loop (split CHR '' '' text) [] 0 t") (simp add: chat_chunks_def)


lemma well_terminated_single: "well_terminated [e] = is_terminal e"
  by (simp add: well_terminated_def)

lemma well_terminated_Cons:
  "events \<noteq> [] \<Longrightarrow> well_terminated (e # events) = (\<not> is_terminal e \<and> well_terminated events)"
  by (auto simp: well_terminated_def)

lemma well_terminated_append:
  "later \<noteq> [] \<Longrightarrow>
   well_terminated (earlier @ later) = (\<not> list_ex is_terminal earlier \<and> well_terminated later)"
  by (induction earlier) (auto simp: well_terminated_Cons)

lemmas well_terminated_simps =
  well_terminated_single well_terminated_Cons well_terminated_append


text \<open>So does the stream of \<open>stream_chat_response\<close>, on the agent path and on the direct
  path with a client that has \<open>astream\<close>.\<close>

lemma stream_chat_response_terminated:
  assumes "use_agent \<or> (\<forall>name client. resolve_model (MODEL_CLIENTS w) model = Some name \<longrightarrow>
             new_client (MODEL_CLIENTS w) name = Inr client \<longrightarrow> astream client \<noteq> None)"
  shows "well_terminated (fst (stream_chat_response w messages model thread_id use_agent
                                 deep_research file_url))"
  using assms
  by (auto simp: stream_chat_response_def Let_def well_terminated_simps
      chat_chunks_not_terminal stream_loop_not_terminal progress_loop_not_terminal
      split: sum.splits option.splits prod.splits)




lemma direct_stream_example:
  "fst (stream_chat_response
        (example_world [(''gpt-4o-mini'', Inr (plain_client ''Hello!''))] (Inr None) (Inr None))
        [HumanMessage ''Hi''] ''gpt-4o-mini'' ''t1'' False False None)
     = [Status ''Processing...'', Chunk ''Hello!'' ''t1'', Done ''t1'']"
  by (simp add: stream_chat_response_def example_world_def resolve_model_def new_client_def
      plain_client_def)


section \<open>Model registry\<close>

lemma resolve_model_registered:
  "resolve_model clients model = Some name \<Longrightarrow> name \<in> set (map fst clients)"
  by (auto simp: resolve_model_def split: if_splits list.splits)

text \<open>
  C5 (as amended). When the requested name is not registered and the registry is not
  empty, the lookup gives the first registered name, and the client then built is the
  one of its factory. The non-streaming direct path answers with the reply of that
  client (or with the error message that names the first registered model), and the
  streaming path streams from that client, or on its agent path calls the agent with
  the first registered name. The non-streaming agent path does not look at the
  registry: it calls the agent with the requested name.
\<close>

theorem unregistered_model_falls_back_to_first:
  assumes "MODEL_CLIENTS w = (first, factory) # rest"
    and "model \<notin> set (map fst (MODEL_CLIENTS w))"
  shows "resolve_model (MODEL_CLIENTS w) model = Some first
     \<and> new_client (MODEL_CLIENTS w) first = factory
     \<and> chat w (request\<lparr>chat_model := model, chat_stream := False, chat_use_agent := False\<rparr>) =
         OK (Reply (ChatResponse
           (assistant
              (case factory of
                 Inl model_error \<Rightarrow>
                   ''I encountered an error with the '' @ first @ '' model: '' @ str model_error
               | Inr model_client \<Rightarrow>
                   (case invoke model_client (normalize (chat_messages request)) of
                      Inl model_error \<Rightarrow>
                        ''I encountered an error with the '' @ first @ '' model: ''
                          @ str model_error
                    | Inr response_content \<Rightarrow> response_content)))
           (or_else (chat_thread_id request) (uuid4 w))))
     \<and> stream_chat_response w messages model thread_id use_agent deep_research file_url =
         (case factory of
            Inl e \<Rightarrow>
              ([Status ''Processing...'',
                Result (''I encountered an error: '' @ str e) thread_id], [])
          | Inr model_client \<Rightarrow>
              if use_agent then
                ([Status ''Processing...'', Status ''Running agent...'']
                   @ progress_loop (polls w) 0
                   @ (case agt_graph_invoke w
                             (make_state messages file_url deep_research first) thread_id of
                        Inl invoke_error \<Rightarrow>
                          [Result (''I encountered an error with the AI agent: ''
                                     @ str invoke_error) thread_id]
                      | Inr result \<Rightarrow>
                          chat_chunks (agent_response_content result) thread_id
                            @ [Result (agent_response_content result) thread_id]),
                 [(make_state messages file_url deep_research first, thread_id)])
              else
                (case astream model_client of
                   None \<Rightarrow> ([Status ''Processing...''], [])
                 | Some stream \<Rightarrow>
                     (case stream messages of
                        (chunks, None) \<Rightarrow>
                          ([Status ''Processing...''] @ stream_loop chunks thread_id
                             @ [Done thread_id], [])
                      | (chunks, Some model_error) \<Rightarrow>
                          ([Status ''Processing...''] @ stream_loop chunks thread_id
                             @ [Result (''I encountered an error with the '' @ first
                                          @ '' model: '' @ str model_error) thread_id],
                           []))))
     \<and> chat w (request\<lparr>chat_model := model, chat_stream := False, chat_use_agent := True\<rparr>) =
         OK (Reply (ChatResponse
           (assistant
              (case agt_graph_invoke w
                      (make_state (normalize (chat_messages request)) (chat_file_url request)
                         (chat_deep_research request) model)
                      (or_else (chat_thread_id request) (uuid4 w)) of
                 Inl invoke_error \<Rightarrow>
                   ''I encountered an error with the AI agent: '' @ str invoke_error
               | Inr result \<Rightarrow> agent_response_content result))
           (or_else (chat_thread_id request) (uuid4 w))))"
proof -
  from assms have r: "resolve_model (MODEL_CLIENTS w) model = Some first"
    by (auto simp: resolve_model_def)
  from assms have n: "new_client (MODEL_CLIENTS w) first = factory"
    by (simp add: new_client_def)
  have c: "chat w (request\<lparr>chat_model := model, chat_stream := False, chat_use_agent := False\<rparr>) =
         OK (Reply (ChatResponse
           (assistant
              (case factory of
                 Inl model_error \<Rightarrow>
                   ''I encountered an error with the '' @ first @ '' model: '' @ str model_error
               | Inr model_client \<Rightarrow>
                   (case invoke model_client (normalize (chat_messages request)) of
                      Inl model_error \<Rightarrow>
                        ''I encountered an error with the '' @ first @ '' model: ''
                          @ str model_error
                    | Inr response_content \<Rightarrow> response_content)))
           (or_else (chat_thread_id request) (uuid4 w))))"
    by (simp add: chat_def Let_def r n split: sum.splits)
  have s: "stream_chat_response w messages model thread_id use_agent deep_research file_url =
         (case factory of
            Inl e \<Rightarrow>
              ([Status ''Processing...'',
                Result (''I encountered an error: '' @ str e) thread_id], [])
          | Inr model_client \<Rightarrow>
              if use_agent then
                ([Status ''Processing...'', Status ''Running agent...'']
                   @ progress_loop (polls w) 0
                   @ (case agt_graph_invoke w
                             (make_state messages file_url deep_research first) thread_id of
                        Inl invoke_error \<Rightarrow>
                          [Result (''I encountered an error with the AI agent: ''
                                     @ str invoke_error) thread_id]
                      | Inr result \<Rightarrow>
                          chat_chunks (agent_response_content result) thread_id
                            @ [Result (agent_response_content result) thread_id]),
                 [(make_state messages file_url deep_research first, thread_id)])
              else
                (case astream model_client of
                   None \<Rightarrow> ([Status ''Processing...''], [])
                 | Some stream \<Rightarrow>
                     (case stream messages of
                        (chunks, None) \<Rightarrow>
                          ([Status ''Processing...''] @ stream_loop chunks thread_id
                             @ [Done thread_id], [])
                      | (chunks, Some model_error) \<Rightarrow>
                          ([Status ''Processing...''] @ stream_loop chunks thread_id
                             @ [Result (''I encountered an error with the '' @ first
                                          @ '' model: '' @ str model_error) thread_id],
                           []))))"
    by (simp add: stream_chat_response_def Let_def r n split: sum.splits)
  have a: "chat w (request\<lparr>chat_model := model, chat_stream := False, chat_use_agent := True\<rparr>) =
         OK (Reply (ChatResponse
           (assistant
              (case agt_graph_invoke w
                      (make_state (normalize (chat_messages request)) (chat_file_url request)
                         (chat_deep_research request) model)
                      (or_else (chat_thread_id request) (uuid4 w)) of
                 Inl invoke_error \<Rightarrow>
                   ''I encountered an error with the AI agent: '' @ str invoke_error
               | Inr result \<Rightarrow> agent_response_content result))
           (or_else (chat_thread_id request) (uuid4 w))))"
    by (simp add: chat_def Let_def split: sum.splits)
  from r n c s a show ?thesis by blast
qed

theorem unregistered_model_falls_back_to_first_witness:
  "resolve_model
     (MODEL_CLIENTS (example_world [(''gpt-4o-mini'', Inr (plain_client ''Hello!'')),
                                    (''gpt-4o'', Inr (plain_client ''Hi!''))] (Inr None) (Inr None)))
     ''no-such-model'' = Some ''gpt-4o-mini''
   \<and> chat (example_world [(''gpt-4o-mini'', Inr (plain_client ''Hello!'')),
                           (''gpt-4o'', Inr (plain_client ''Hi!''))] (Inr None) (Inr None))
        (hi_request\<lparr>chat_model := ''no-such-model'', chat_stream := False,
                     chat_use_agent := False\<rparr>)
       = OK (Reply (ChatResponse (assistant ''Hello!'') ''t1''))
   \<and> stream_chat_response
        (example_world [(''gpt-4o-mini'', Inr (plain_client ''Hello!'')),
                        (''gpt-4o'', Inr (plain_client ''Hi!''))] (Inr None) (Inr None))
        [HumanMessage ''Hi''] ''no-such-model'' ''t1'' False False None
       = ([Status ''Processing...'', Chunk ''Hello!'' ''t1'', Done ''t1''], [])"
  using unregistered_model_falls_back_to_first
    [of "example_world [(''gpt-4o-mini'', Inr (plain_client ''Hello!'')),
                        (''gpt-4o'', Inr (plain_client ''Hi!''))] (Inr None) (Inr None)"
        "''gpt-4o-mini''" "Inr (plain_client ''Hello!'')"
        "[(''gpt-4o'', Inr (plain_client ''Hi!''))]" "''no-such-model''"
        hi_request "[HumanMessage ''Hi'']" "''t1''" False False None]
  by (simp add: example_world_def plain_client_def hi_request_def)

text \<open>C5 as stated fails on the non-streaming agent path: with a registry that is not
  empty and an unregistered name, the agent is given the requested name, where the
  streaming path gives it the first registered one.\<close>

theorem nonstreaming_agent_keeps_requested_model:
  "''no-such-model'' \<notin> set (map fst (MODEL_CLIENTS
       (echo_world [(''gpt-4o-mini'', Inr (plain_client ''Hello!''))])))
   \<and> chat (echo_world [(''gpt-4o-mini'', Inr (plain_client ''Hello!''))])
        (hi_request\<lparr>chat_model := ''no-such-model'', chat_use_agent := True\<rparr>)
       = OK (Reply (ChatResponse (assistant ''no-such-model'') ''t1''))
   \<and> fst (stream_chat_response (echo_world [(''gpt-4o-mini'', Inr (plain_client ''Hello!''))])
            [HumanMessage ''Hi''] ''no-such-model'' ''t1'' True False None)
       = [Status ''Processing...'', Status ''Running agent...'', Status ''Thinking...'',
          Result ''gpt-4o-mini'' ''t1'']"
  by (simp add: chat_def stream_chat_response_def echo_world_def hi_request_def
      agent_response_content_def make_state_def resolve_model_def new_client_def
      plain_client_def chat_chunks_def has_terminal_def newline_def progress_steps_def Let_def)

text \<open>
  C10 (as amended). In \<open>stream_chat_response\<close> the registry is consulted, and the resolved
  client built, before the agent branch. With \<open>use_agent\<close> set and an empty registry, the
  stream is the first status event and the result event that reports the missing API
  keys, and \<open>agt_graph.invoke\<close> is not called. With an unregistered name and a first
  registered factory that returns a client, the agent is called once, with the first
  registered name as \<open>model_name\<close>, and its answer is streamed. With an unregistered name
  and a first registered factory that raises, the stream ends with the error result
  event and the agent is not called.
\<close>

theorem streaming_agent_resolves_model_first:
  "(MODEL_CLIENTS w = [] \<longrightarrow>
      stream_chat_response w messages model thread_id True deep_research file_url
        = ([Status ''Processing...'', Result no_api_keys thread_id], []))
   \<and> (MODEL_CLIENTS w = (first, Inr client) # rest
        \<and> model \<notin> set (map fst (MODEL_CLIENTS w)) \<longrightarrow>
        stream_chat_response w messages model thread_id True deep_research file_url
          = ([Status ''Processing...'', Status ''Running agent...'']
               @ progress_loop (polls w) 0
               @ (case agt_graph_invoke w
                         (make_state messages file_url deep_research first) thread_id of
                    Inl invoke_error \<Rightarrow>
                      [Result (''I encountered an error with the AI agent: ''
                                 @ str invoke_error) thread_id]
                  | Inr result \<Rightarrow>
                      chat_chunks (agent_response_content result) thread_id
                        @ [Result (agent_response_content result) thread_id]),
             [(make_state messages file_url deep_research first, thread_id)])
        \<and> model_name (make_state messages file_url deep_research first) = first)
   \<and> (MODEL_CLIENTS w = (first, Inl e) # rest
        \<and> model \<notin> set (map fst (MODEL_CLIENTS w)) \<longrightarrow>
        stream_chat_response w messages model thread_id True deep_research file_url
          = ([Status ''Processing...'',
              Result (''I encountered an error: '' @ str e) thread_id], []))"
proof -
  have a: "MODEL_CLIENTS w = [] \<longrightarrow>
      stream_chat_response w messages model thread_id True deep_research file_url
        = ([Status ''Processing...'', Result no_api_keys thread_id], [])"
    by (simp add: stream_chat_response_def resolve_model_def)
  have r: "resolve_model (MODEL_CLIENTS w) model = Some first
           \<and> new_client (MODEL_CLIENTS w) first = factory"
    if "MODEL_CLIENTS w = (first, factory) # rest"
      and "model \<notin> set (map fst (MODEL_CLIENTS w))" for factory
    using that by (auto simp: resolve_model_def new_client_def)
  have b: "MODEL_CLIENTS w = (first, Inr client) # rest
        \<and> model \<notin> set (map fst (MODEL_CLIENTS w)) \<longrightarrow>
        stream_chat_response w messages model thread_id True deep_research file_url
          = ([Status ''Processing...'', Status ''Running agent...'']
               @ progress_loop (polls w) 0
               @ (case agt_graph_invoke w
                         (make_state messages file_url deep_research first) thread_id of
                    Inl invoke_error \<Rightarrow>
                      [Result (''I encountered an error with the AI agent: ''
                                 @ str invoke_error) thread_id]
                  | Inr result \<Rightarrow>
                      chat_chunks (agent_response_content result) thread_id
                        @ [Result (agent_response_content result) thread_id]),
             [(make_state messages file_url deep_research first, thread_id)])
        \<and> model_name (make_state messages file_url deep_research first) = first"
    using r [of "Inr client"]
    by (auto simp: stream_chat_response_def Let_def make_state_def split: sum.splits)
  have c: "MODEL_CLIENTS w = (first, Inl e) # rest
        \<and> model \<notin> set (map fst (MODEL_CLIENTS w)) \<longrightarrow>
        stream_chat_response w messages model thread_id True deep_research file_url
          = ([Status ''Processing...'',
              Result (''I encountered an error: '' @ str e) thread_id], [])"
    using r [of "Inl e"] by (auto simp: stream_chat_response_def)
  from a b c show ?thesis by blast
qed

theorem streaming_agent_resolves_model_first_witness:
  "stream_chat_response (echo_world [])
       [HumanMessage ''Hi''] ''gpt-4o-mini'' ''t1'' True False None
     = ([Status ''Processing...'', Result no_api_keys ''t1''], [])
   \<and> stream_chat_response (echo_world [(''gpt-4o-mini'', Inr (plain_client ''Hello!''))])
        [HumanMessage ''Hi''] ''no-such-model'' ''t1'' True False None
       = ([Status ''Processing...'', Status ''Running agent...'', Status ''Thinking...'',
           Result ''gpt-4o-mini'' ''t1''],
          [(make_state [HumanMessage ''Hi''] None False ''gpt-4o-mini'', ''t1'')])
   \<and> stream_chat_response (echo_world [(''gpt-4o-mini'', Inl (Exception ''no key''))])
        [HumanMessage ''Hi''] ''no-such-model'' ''t1'' True False None
       = ([Status ''Processing...'', Result ''I encountered an error: no key'' ''t1''], [])"
  using
    streaming_agent_resolves_model_first [of "echo_world []" "[HumanMessage ''Hi'']" "''gpt-4o-mini''" "''t1''" False None]
    streaming_agent_resolves_model_first [of "echo_world [(''gpt-4o-mini'', Inr (plain_client ''Hello!''))]"
            "[HumanMessage ''Hi'']" "''no-such-model''" "''t1''" False None
            "''gpt-4o-mini''" "plain_client ''Hello!''" "[]"]
    streaming_agent_resolves_model_first [of "echo_world [(''gpt-4o-mini'', Inl (Exception ''no key''))]"
            "[HumanMessage ''Hi'']" "''no-such-model''" "''t1''" False None
            "''gpt-4o-mini''" _ "[]" "Exception ''no key''"]
  by (simp add: echo_world_def agent_response_content_def make_state_def chat_chunks_def
      has_terminal_def newline_def progress_steps_def)

text \<open>C10 as stated fails when the factory of the first registered model raises: the
  stream ends with the error result event and the agent is never called.\<close>

theorem streaming_agent_factory_raises:
  "''no-such-model'' \<notin> set (map fst (MODEL_CLIENTS
       (echo_world [(''gpt-4o-mini'', Inl (Exception ''no key''))])))
   \<and> MODEL_CLIENTS (echo_world [(''gpt-4o-mini'', Inl (Exception ''no key''))]) \<noteq> []
   \<and> stream_chat_response (echo_world [(''gpt-4o-mini'', Inl (Exception ''no key''))])
        [HumanMessage ''Hi''] ''no-such-model'' ''t1'' True False None
       = ([Status ''Processing...'', Result ''I encountered an error: no key'' ''t1''], [])"
  by (simp add: stream_chat_response_def echo_world_def resolve_model_def new_client_def)

text \<open>
  C6 (as amended). With an empty registry, a streaming request, and a non-streaming
  request without \<open>use_agent\<close>, are answered with status 200 and the text that reports
  the missing API keys: as the reply, or as the result event that ends the stream.
\<close>

theorem empty_registry_reports_missing_keys:
  assumes "MODEL_CLIENTS w = []" and "chat_stream request \<or> \<not> chat_use_agent request"
  shows "chat w request =
           OK (if chat_stream request then
                 StreamingResponse
                   [wire (Status ''Processing...''),
                    wire (Result no_api_keys (or_else (chat_thread_id request) (uuid4 w)))]
               else Reply (ChatResponse (assistant no_api_keys)
                             (or_else (chat_thread_id request) (uuid4 w))))"
  using assms
  by (auto simp: chat_def stream_chat_response_def resolve_model_def Let_def)

theorem empty_registry_reports_missing_keys_witness:
  "chat (example_world [] (Inr None) (Inr None)) hi_request
     = OK (Reply (ChatResponse (assistant no_api_keys) ''t1''))
   \<and> chat (example_world [] (Inr None) (Inr None)) (hi_request\<lparr>chat_stream := True\<rparr>)
       = OK (StreamingResponse
               [wire (Status ''Processing...''), wire (Result no_api_keys ''t1'')])"
  using
    empty_registry_reports_missing_keys [of "example_world [] (Inr None) (Inr None)" hi_request]
    empty_registry_reports_missing_keys
      [of "example_world [] (Inr None) (Inr None)" "hi_request\<lparr>chat_stream := True\<rparr>"]
  by (simp add: example_world_def hi_request_def)

text \<open>C6 as stated fails: a non-streaming request with \<open>use_agent\<close> goes to the agent
  without a look at the registry, and the reply is whatever the agent answers.\<close>

theorem empty_registry_agent_counterexample:
  "MODEL_CLIENTS (example_world [] (Inr (Some [MessageObject ''Hi there''])) (Inr None)) = []
   \<and> chat (example_world [] (Inr (Some [MessageObject ''Hi there''])) (Inr None))
        (hi_request\<lparr>chat_use_agent := True\<rparr>)
       = OK (Reply (ChatResponse (assistant ''Hi there'') ''t1''))
   \<and> ''Hi there'' \<noteq> no_api_keys"
  by (simp add: chat_def example_world_def hi_request_def agent_response_content_def
      no_api_keys_def Let_def)

section \<open>Failures of the agents\<close>

text \<open>
  C4 (as amended). Only \<open>react_agent_search\<close> tells the overload error apart: when the
  agent raises \<open>anthropic.InternalServerError\<close> the reply is the fixed busy message, and
  for any other exception it is a generic message that embeds the exception text. In
  \<open>react_agent_search_streaming\<close> and in \<open>chat\<close> with \<open>use_agent\<close>, streaming or not, every
  exception of the agent, the overload error included, becomes a generic message that
  embeds the exception text. In each case a reply, or a well terminated stream, is
  returned.
\<close>

theorem agent_failures_become_replies:
  assumes "\<And>state t. agt_graph_invoke w state t = Inl e"
    and "\<And>msgs t config. react_graph_ainvoke w msgs t config = Inl e"
  shows "react_agent_search w search =
           OK (ChatResponse
                 (assistant (case e of
                     AnthropicInternalServerError s \<Rightarrow> busy_message
                   | Exception s \<Rightarrow> ''I encountered an error with the research agent: '' @ s))
                 (or_else (react_thread_id search) (uuid4 w)))
     \<and> event_generator w search =
         [Status ''Starting research...'', Status ''Researching...'',
          Result (''I encountered an error: '' @ str e)
            (or_else (react_thread_id search) (uuid4 w))]
     \<and> chat w (request\<lparr>chat_stream := False, chat_use_agent := True\<rparr>) =
         OK (Reply (ChatResponse
               (assistant (''I encountered an error with the AI agent: '' @ str e))
               (or_else (chat_thread_id request) (uuid4 w))))
     \<and> well_terminated (fst (stream_chat_response w messages model thread_id True
                                deep_research file_url))
     \<and> (resolve_model (MODEL_CLIENTS w) model = Some name
          \<and> new_client (MODEL_CLIENTS w) name = Inr client \<longrightarrow>
        fst (stream_chat_response w messages model thread_id True deep_research file_url) =
          [Status ''Processing...'', Status ''Running agent...''] @ progress_loop (polls w) 0
            @ [Result (''I encountered an error with the AI agent: '' @ str e) thread_id])"
proof -
  have a: "react_agent_search w search =
           OK (ChatResponse
                 (assistant (case e of
                     AnthropicInternalServerError s \<Rightarrow> busy_message
                   | Exception s \<Rightarrow> ''I encountered an error with the research agent: '' @ s))
                 (or_else (react_thread_id search) (uuid4 w)))"
    by (cases e) (simp_all add: react_agent_search_def Let_def assms(2))
  have b: "event_generator w search =
         [Status ''Starting research...'', Status ''Researching...'',
          Result (''I encountered an error: '' @ str e)
            (or_else (react_thread_id search) (uuid4 w))]"
    by (simp add: event_generator_def Let_def assms(2) or_else_idem del: or_else.simps)
  have c: "chat w (request\<lparr>chat_stream := False, chat_use_agent := True\<rparr>) =
         OK (Reply (ChatResponse
               (assistant (''I encountered an error with the AI agent: '' @ str e))
               (or_else (chat_thread_id request) (uuid4 w))))"
    by (simp add: chat_def Let_def assms(1))
  have d: "well_terminated (fst (stream_chat_response w messages model thread_id True
                                deep_research file_url))"
    by (rule stream_chat_response_terminated) simp
  have e: "resolve_model (MODEL_CLIENTS w) model = Some name
          \<and> new_client (MODEL_CLIENTS w) name = Inr client \<longrightarrow>
        fst (stream_chat_response w messages model thread_id True deep_research file_url) =
          [Status ''Processing...'', Status ''Running agent...''] @ progress_loop (polls w) 0
            @ [Result (''I encountered an error with the AI agent: '' @ str e) thread_id]"
    by (simp add: stream_chat_response_def Let_def assms(1))
  from a b c d e show ?thesis by blast
qed

theorem agent_failures_become_replies_witness:
  "react_agent_search
     (example_world [] (Inl (AnthropicInternalServerError ''Overloaded''))
        (Inl (AnthropicInternalServerError ''Overloaded''))) search_request
     = OK (ChatResponse (assistant busy_message) ''t1'')
   \<and> event_generator
       (example_world [] (Inl (AnthropicInternalServerError ''Overloaded''))
          (Inl (AnthropicInternalServerError ''Overloaded''))) search_request
     = [Status ''Starting research...'', Status ''Researching...'',
        Result ''I encountered an error: Overloaded'' ''t1'']
   \<and> chat
       (example_world [] (Inl (AnthropicInternalServerError ''Overloaded''))
          (Inl (AnthropicInternalServerError ''Overloaded'')))
       (hi_request\<lparr>chat_stream := False, chat_use_agent := True\<rparr>)
     = OK (Reply (ChatResponse
             (assistant ''I encountered an error with the AI agent: Overloaded'') ''t1''))"
  using agent_failures_become_replies [of "example_world [] (Inl (AnthropicInternalServerError ''Overloaded''))
                  (Inl (AnthropicInternalServerError ''Overloaded''))"
               "AnthropicInternalServerError ''Overloaded''" search_request hi_request]
  by (simp add: example_world_def search_request_def hi_request_def)

text \<open>C4 as stated fails: in \<open>chat\<close> with \<open>use_agent\<close> an overload error of the agent is
  answered with the generic agent error message, not with the busy message.\<close>

theorem chat_agent_overload_counterexample:
  "chat (example_world [(''gpt-4o-mini'', Inr (plain_client ''Hello!''))]
           (Inl (AnthropicInternalServerError ''Overloaded'')) (Inr None))
        (hi_request\<lparr>chat_use_agent := True\<rparr>)
     = OK (Reply (ChatResponse
             (assistant ''I encountered an error with the AI agent: Overloaded'') ''t1''))
   \<and> ''I encountered an error with the AI agent: Overloaded'' \<noteq> busy_message"
  by (simp add: chat_def example_world_def hi_request_def busy_message_def Let_def)

section \<open>Source citations\<close>

lemma collect_items_eq:
  "collect_items items sources
     = sources @ filter (\<lambda>item. truthy (get_url item) \<and> truthy (get_title item)) items"
  by (induction items arbitrary: sources) auto

lemma collect_calls_eq:
  "collect_calls calls sources = sources @ concat (map call_entries calls)"
  by (induction calls arbitrary: sources)
     (auto simp: call_entries_def collect_items_eq split: tool_output.splits)

lemma collect_messages_eq:
  "collect_messages msgs sources = sources @ search_entries msgs"
  by (induction msgs arbitrary: sources) (auto simp: search_entries_def collect_calls_eq)

lemma search_entries_filter:
  "search_entries (filter has_tool_calls msgs) = search_entries msgs"
  by (induction msgs) (auto simp: search_entries_def has_tool_calls_def split: option.splits)

lemma call_entries_search:
  "call_name call = Some ''search'' \<Longrightarrow> call_output call = ListOutput items \<Longrightarrow>
   call_entries call
     = filter (\<lambda>item. truthy (get_url item) \<and> truthy (get_title item)) items"
  unfolding call_entries_def by simp

lemma call_entries_other_name: "call_name call \<noteq> Some ''search'' \<Longrightarrow> call_entries call = []"
  unfolding call_entries_def by simp

lemma call_entries_no_list:
  "call_output call = NoOutput \<or> call_output call = OtherOutput \<Longrightarrow> call_entries call = []"
  unfolding call_entries_def by auto

lemma call_entries_complete:
  assumes "entry \<in> set (call_entries call)"
  shows "truthy (get_url entry) \<and> truthy (get_title entry)"
proof (cases "call_name call = Some ''search''")
  case True
  show ?thesis
  proof (cases "call_output call")
    case (ListOutput items)
    with assms True show ?thesis by (simp add: call_entries_search)
  next
    case NoOutput
    with assms show ?thesis by (simp add: call_entries_no_list)
  next
    case OtherOutput
    with assms show ?thesis by (simp add: call_entries_no_list)
  qed
next
  case False
  with assms show ?thesis by (simp add: call_entries_other_name)
qed

lemma search_entries_complete:
  assumes "entry \<in> set (search_entries msgs)"
  shows "truthy (get_url entry) \<and> truthy (get_title entry)"
proof -
  from assms obtain call where "entry \<in> set (call_entries call)"
    by (auto simp: search_entries_def)
  then show ?thesis by (rule call_entries_complete)
qed

lemma search_entries_Nil: "search_entries [] = []"
  by (simp add: search_entries_def)

lemma format_loop_eq:
  "(\<And>entry. entry \<in> set entries \<Longrightarrow> truthy (get_url entry) \<and> truthy (get_title entry)) \<Longrightarrow>
   format_loop entries formatted = formatted @ map source_link entries"
proof (induction entries arbitrary: formatted)
  case Nil
  then show ?case by simp
next
  case (Cons entry entries)
  from Cons.prems [of entry] obtain u t where
    "get_url entry = Some u" "u \<noteq> []" "get_title entry = Some t"
    by (cases "get_url entry"; cases "get_title entry") auto
  moreover have "format_loop entries formatted' = formatted' @ map source_link entries"
    for formatted'
    using Cons.IH Cons.prems by simp
  ultimately show ?case
    by (simp add: Let_def source_link_def short_title_def)
qed

lemma format_source_urls_eq:
  assumes "entries \<noteq> []"
    and "\<And>entry. entry \<in> set entries \<Longrightarrow> truthy (get_url entry) \<and> truthy (get_title entry)"
  shows "format_source_urls entries = sources_section entries"
  using assms by (simp add: format_source_urls_def format_loop_eq sources_section_def Let_def)

lemma react_response_content_sources:
  assumes "search_entries msgs \<noteq> []"
  shows "react_response_content (Some msgs)
           = message_content (last msgs) @ sources_section (search_entries msgs)"
proof -
  from assms have "msgs \<noteq> []" by (auto simp: search_entries_def)
  moreover from assms have "filter has_tool_calls msgs \<noteq> []"
    by (metis search_entries_filter search_entries_Nil)
  moreover have "collect_messages (filter has_tool_calls msgs) [] = search_entries msgs"
    by (simp add: collect_messages_eq search_entries_filter)
  moreover have "format_source_urls (search_entries msgs) = sources_section (search_entries msgs)"
    using assms search_entries_complete by (intro format_source_urls_eq) auto
  ultimately show ?thesis
    using assms by (simp add: react_response_content_def Let_def)
qed

lemma short_title_length: "length (short_title title) \<le> 60"
  by (simp add: short_title_def)

text \<open>
  C7. When the messages of the agent result hold search tool calls with list outputs,
  the entries that have a url and a title are collected in their order, duplicates
  kept, and the reply text is the content of the last message followed by the Sources
  section: one link per entry, its title stripped and, when longer than 60 characters,
  cut to 57 characters and an ellipsis. \<open>react_agent_search\<close> returns that text and
  \<open>react_agent_search_streaming\<close> ends with it as its result event.
\<close>

theorem search_sources_appended:
  assumes "search_entries msgs \<noteq> []"
    and "\<And>messages t config. react_graph_ainvoke w messages t config = Inr (Some msgs)"
  shows "react_agent_search w request =
           OK (ChatResponse
                 (assistant (message_content (last msgs) @ sources_section (search_entries msgs)))
                 (or_else (react_thread_id request) (uuid4 w)))
     \<and> last (event_generator w request) =
         Result (message_content (last msgs) @ sources_section (search_entries msgs))
           (or_else (react_thread_id request) (uuid4 w))
     \<and> length (short_title title) \<le> 60"
  using assms
  by (simp add: react_agent_search_def event_generator_def Let_def
      react_response_content_sources short_title_length)


lemma two_entries:
  "search_entries two_search_results
     = [Source (Some ''https://a.example'') (Some ''Alpha''),
        Source (Some ''https://b.example'') (Some '' Beta '')]"
  by (simp add: search_entries_def two_search_results_def call_entries_def)

lemma two_last: "message_content (last two_search_results) = ''Answer''"
  by (simp add: two_search_results_def)

theorem search_sources_appended_witness:
  "react_agent_search (example_world [] (Inr None) (Inr (Some two_search_results))) search_request
     = OK (ChatResponse
             (assistant (''Answer'' @ [newline, newline] @ ''**Sources:**'' @ [newline]
                           @ ''[Alpha](https://a.example)'' @ [newline]
                           @ ''[Beta](https://b.example)'')) ''t1'')
   \<and> last (event_generator (example_world [] (Inr None) (Inr (Some two_search_results)))
             search_request)
       = Result (''Answer'' @ [newline, newline] @ ''**Sources:**'' @ [newline]
                   @ ''[Alpha](https://a.example)'' @ [newline]
                   @ ''[Beta](https://b.example)'') ''t1''"
  using search_sources_appended [where msgs = two_search_results
              and w = "example_world [] (Inr None) (Inr (Some two_search_results))"
              and request = search_request and title = "[]"]
  by (simp add: two_entries two_last example_world_def search_request_def sources_section_def
      source_link_def short_title_def strip_def isspace_def)

lemma short_title_example:
  "short_title ''  The quick brown fox jumps over the lazy dog, again and again and again  ''
     = ''The quick brown fox jumps over the lazy dog, again and ag...''"
  by (simp add: short_title_def strip_def isspace_def)

section \<open>Wire form of the events\<close>

lemma hex_digit_no_newline: "''0123456789abcdef'' ! (m mod 16) \<noteq> newline"
proof -
  have "''0123456789abcdef'' ! (m mod 16) \<in> set ''0123456789abcdef''"
    by (intro nth_mem) simp
  then show ?thesis by (auto simp: newline_def)
qed

lemma hex4_no_newline: "newline \<notin> set (hex4 n)"
  using hex_digit_no_newline [of "n div 4096"] hex_digit_no_newline [of "n div 256"]
    hex_digit_no_newline [of "n div 16"] hex_digit_no_newline [of n]
  by (auto simp: hex4_def)

lemma json_escape_no_newline: "newline \<notin> set (json_escape c)"
  using hex4_no_newline [of "of_char c"]
  by (auto simp: json_escape_def newline_def)

lemma dumps_str_no_newline: "newline \<notin> set (dumps_str s)"
  by (auto simp: dumps_str_def json_escape_no_newline) (simp add: newline_def)

lemma join_no_newline:
  "newline \<notin> set sep \<Longrightarrow> (\<And>x. x \<in> set xs \<Longrightarrow> newline \<notin> set x) \<Longrightarrow> newline \<notin> set (join sep xs)"
  by (induction sep xs rule: join.induct) auto

lemma dumps_no_newline:
  "newline \<notin> set (dumps j)"
  "x \<in> set (dumps_items kvs) \<Longrightarrow> newline \<notin> set x"
proof (induction j and kvs arbitrary: and x rule: dumps_dumps_items.induct)
  case (1 s)
  show ?case by (simp add: dumps_str_no_newline)
next
  case (2 kvs)
  have "newline \<notin> set '', ''"
    by (simp add: newline_def)
  then have "newline \<notin> set (join '', '' (dumps_items kvs))"
    using 2 by (rule join_no_newline)
  moreover have "newline \<noteq> CHR ''{''" "newline \<noteq> CHR ''}''"
    by (simp_all add: newline_def)
  ultimately show ?case by simp
next
  case 3
  then show ?case by simp
next
  case (4 k v kvs)
  have "newline \<notin> set (dumps_str k @ '': '' @ dumps v)"
    using dumps_str_no_newline [of k] 4(1) by (simp add: newline_def)
  with 4 show ?case by auto
qed

lemma wire_one_line:
  "wire e = dumps (event_json e) @ [newline] \<and> newline \<notin> set (dumps (event_json e))"
  by (simp add: wire_def dumps_no_newline)

text \<open>
  C9 (as amended). Every event of the two generators goes out as one JSON object on one
  line: the serialised dictionary holds no newline and is followed by one. The
  dictionary has a \<open>type\<close> field, one of \<open>status\<close>, \<open>chunk\<close>, \<open>result\<close> and \<open>done\<close>, and the
  payload of its variant. A chunk, result or done event carries \<open>thread_id\<close>; a status
  event carries \<open>type\<close> and \<open>status\<close> only.
\<close>

theorem stream_event_wire_form:
  assumes "e \<in> set (fst (stream_chat_response w messages model thread_id use_agent
                            deep_research file_url)) \<union> set (event_generator w request)"
  shows "wire e = dumps (event_json e) @ [newline]
     \<and> newline \<notin> set (dumps (event_json e))
     \<and> json_get (event_json e) ''type''
         \<in> {Some (JString ''status''), Some (JString ''chunk''),
             Some (JString ''result''), Some (JString ''done'')}
     \<and> json_keys (event_json e) =
         (case e of
            Status status \<Rightarrow> [''type'', ''status'']
          | Chunk chunk t \<Rightarrow> [''type'', ''chunk'', ''thread_id'']
          | Result text t \<Rightarrow> [''type'', ''message'', ''thread_id'']
          | Done t \<Rightarrow> [''type'', ''thread_id''])
     \<and> (''thread_id'' \<in> set (json_keys (event_json e))) = (\<not> is_status e)"
  using wire_one_line [of e] by (cases e) simp_all

text \<open>C9 as stated fails: the first event of a stream is a status event, and its
  dictionary has no \<open>thread_id\<close> field.\<close>

theorem status_event_without_thread_id:
  "event_generator (example_world [] (Inr None) (Inr None)) search_request ! 0
     = Status ''Starting research...''
   \<and> json_keys (event_json
        (event_generator (example_world [] (Inr None) (Inr None)) search_request ! 0))
       = [''type'', ''status'']
   \<and> ''thread_id'' \<notin> set (json_keys (event_json
        (event_generator (example_world [] (Inr None) (Inr None)) search_request ! 0)))"
  by (simp add: event_generator_def Let_def)

theorem stream_event_wire_form_witness:
  "wire (Status ''Starting research...'')
     = dumps (event_json (Status ''Starting research...'')) @ [newline]
   \<and> newline \<notin> set (dumps (event_json (Status ''Starting research...'')))
   \<and> json_keys (event_json (Status ''Starting research...'')) = [''type'', ''status'']"
  using stream_event_wire_form [of "Status ''Starting research...''" "example_world [] (Inr None) (Inr None)"
              "[]" "''m''" "''t1''" False False None search_request]
  by (simp add: event_generator_def Let_def)

lemma wire_status_example:
  "wire (Status ''Hi'') =
     ''{'' @ [CHR 0x22] @ ''type'' @ [CHR 0x22] @ '': '' @ [CHR 0x22] @ ''status'' @ [CHR 0x22]
       @ '', '' @ [CHR 0x22] @ ''status'' @ [CHR 0x22] @ '': '' @ [CHR 0x22] @ ''Hi''
       @ [CHR 0x22] @ ''}'' @ [newline]"
  by (simp add: wire_def dumps_str_def json_escape_def)

text \<open>A string with a newline, a quote, a control character and a character beyond ASCII,
  as \<open>json.dumps\<close> writes it.\<close>

lemma dumps_str_example:
  "dumps_str [CHR ''a'', newline, CHR 0x22, CHR 0x01, CHR 0xE9]
     = [CHR 0x22] @ ''a'' @ [CHR 0x5C] @ ''n'' @ [CHR 0x5C, CHR 0x22] @ [CHR 0x5C] @ ''u0001''
         @ [CHR 0x5C] @ ''u00e9'' @ [CHR 0x22]"
  by (simp add: dumps_str_def json_escape_def hex4_def newline_def)

end
